theory Spec2Isabelle
  imports Main
begin

section \<open>Panic recovery middleware for HTTP handlers (package recovery)\<close>

text \<open>
  The package wraps an \<open>http.Handler\<close> so that a panic escaping the wrapped handler is
  recovered, turned into a message and a stack trace, and passed to a configurable error
  handler. This theory embeds \<open>middleware.go\<close>: the configuration record, the five option
  constructors, \<open>NewConfig\<close>, \<open>DefaultErrorHandler\<close> and the handler built by \<open>Recover\<close>.

  Conventions of the embedding:
  \<^item> Go strings and byte slices are \<open>string\<close> (lists of 8-bit characters); Go \<open>int\<close> is
    \<open>int\<close> (the code compares and stores integers, it never computes with them).
  \<^item> A \<open>*log.Logger\<close> and a Go function value are references that may be \<open>nil\<close>:
    \<open>logger_ref option\<close> and \<open>func_ref option\<close>, with \<open>None\<close> for \<open>nil\<close>.
  \<^item> What a piece of code does to the response writer and to loggers is the list of
    calls it makes on them (\<open>event\<close>), in order.
  \<^item> A call either returns or panics with a value (\<open>outcome\<close>); a handler that does
    neither (it runs forever, or ends its goroutine) is outside the model.
  \<^item> The configuration is built once by \<open>Recover\<close> and then only read: the error
    handler gets the pointer to it, and a handler that writes through the pointer is
    outside the model. The calls on the response writer are taken to return.
\<close>

subsection \<open>Values carried by a panic\<close>

text \<open>
  The value that \<open>recover()\<close> reports, as far as the type switch of \<open>Recover\<close> can tell
  values apart: the \<open>nil\<close> interface value, a \<open>string\<close>, a value implementing \<open>error\<close>
  (carrying the text that the \<open>%s\<close> verb prints for it, its \<open>Error()\<close> description), or
  a value of any other type (tagged by a number, so that there are many of them).
\<close>

datatype panic_value = PNil | PString string | PError string | POther nat

datatype outcome = Returned | Panicked panic_value

text \<open>Run-time errors raised by the language itself; they implement \<open>error\<close>.\<close>

definition nil_dereference :: panic_value where
  "nil_dereference = PError ''runtime error: invalid memory address or nil pointer dereference''"

definition makeslice_len_out_of_range :: panic_value where
  "makeslice_len_out_of_range = PError ''runtime error: makeslice: len out of range''"

subsection \<open>Collaborators: loggers, the response writer, function values\<close>

text \<open>
  \<open>StderrLogger\<close> is the logger \<open>log.New(os.Stderr, "", log.LstdFlags)\<close> that \<open>NewConfig\<close>
  creates; \<open>UserLogger n\<close> is a logger supplied by the caller.
\<close>

datatype logger_ref = StderrLogger | UserLogger nat

text \<open>
  \<open>DefaultErrorHandlerFn\<close> is the function \<open>DefaultErrorHandler\<close> of the package;
  \<open>UserFn n\<close> is a function value supplied by the caller through \<open>ErrorHandler\<close>.
\<close>

datatype func_ref = DefaultErrorHandlerFn | UserFn nat

text \<open>
  The calls a handler can make on its collaborators: \<open>l.Printf\<close> on a logger (with the
  formatted text of the record), and \<open>w.Header().Set(k, v)\<close>, \<open>w.WriteHeader(code)\<close>,
  \<open>w.Write(b)\<close> on the response writer.
\<close>

datatype event =
    LoggerPrintf logger_ref string
  | HeaderSet string string
  | WriteHeader int
  | Write string

subsection \<open>Configuration\<close>

record Config =
  ContentType :: string
  ResponseStatus :: int
  StackSize :: int
  Logger :: "logger_ref option"
  ErrHandler :: "func_ref option"

type_synonym Option = "Config \<Rightarrow> Config"

text \<open>\<open>const MinimumStackSize = 4 << 10\<close>\<close>

definition MinimumStackSize :: int where
  "MinimumStackSize = push_bit 10 4"

definition StatusInternalServerError :: int where
  "StatusInternalServerError = 500"

definition NewConfig :: Config where
  "NewConfig =
     \<lparr> Config.ContentType = ''application/json'',
       Config.ResponseStatus = StatusInternalServerError,
       Config.StackSize = MinimumStackSize,
       Config.Logger = Some StderrLogger,
       Config.ErrHandler = Some DefaultErrorHandlerFn \<rparr>"

text \<open>
  The option constructors. Each returns a closure over \<open>*Config\<close>; the closure's mutation
  of the configuration is the function from the old configuration to the new one.
  The fields of the record are written \<open>Config.ContentType\<close> and so on from here on, the
  short names being those of the constructors, as in the source.
\<close>

definition ContentType :: "string \<Rightarrow> Option" where
  "ContentType val = (\<lambda>c. c\<lparr>Config.ContentType := val\<rparr>)"

definition ResponseStatus :: "int \<Rightarrow> Option" where
  "ResponseStatus val = (\<lambda>c. c\<lparr>Config.ResponseStatus := val\<rparr>)"

definition StackSize :: "int \<Rightarrow> Option" where
  "StackSize val = (\<lambda>c. if val \<le> MinimumStackSize then c else c\<lparr>Config.StackSize := val\<rparr>)"

definition Logger :: "logger_ref option \<Rightarrow> Option" where
  "Logger logger = (\<lambda>c. c\<lparr>Config.Logger := logger\<rparr>)"

definition ErrorHandler :: "func_ref option \<Rightarrow> Option" where
  "ErrorHandler h = (\<lambda>c. c\<lparr>Config.ErrHandler := h\<rparr>)"

text \<open>The loop \<open>for _, v := range options { v(c) }\<close> of \<open>Recover\<close>.\<close>

fun apply_options :: "Config \<Rightarrow> Option list \<Rightarrow> Config" where
  "apply_options c [] = c"
| "apply_options c (v # options) = apply_options (v c) options"

text \<open>
  A call of one of the five option constructors, as the caller of \<open>Recover\<close> writes it,
  and the option value it builds. This is the option surface of the package; the type
  \<open>Option\<close> itself also admits closures written by the caller.
\<close>

datatype option_call =
    ContentTypeCall string
  | ResponseStatusCall int
  | StackSizeCall int
  | LoggerCall "logger_ref option"
  | ErrorHandlerCall "func_ref option"

fun build :: "option_call \<Rightarrow> Option" where
  "build (ContentTypeCall val) = ContentType val"
| "build (ResponseStatusCall val) = ResponseStatus val"
| "build (StackSizeCall val) = StackSize val"
| "build (LoggerCall logger) = Logger logger"
| "build (ErrorHandlerCall h) = ErrorHandler h"

subsection \<open>Library functions used by the package\<close>

definition newline :: char where
  "newline = CHR 0x0A"

text \<open>
  \<open>strings.Split(s, sep)\<close> for a separator of one byte (the package splits on \<open>"\n"\<close>):
  the pieces of \<open>s\<close> between separators; a string without separator, the empty one
  included, gives one piece.
\<close>

fun strings_Split :: "string \<Rightarrow> char \<Rightarrow> string list" where
  "strings_Split [] sep = [[]]"
| "strings_Split (x # xs) sep =
     (if x = sep then [] # strings_Split xs sep
      else (case strings_Split xs sep of
              [] \<Rightarrow> [[x]]
            | l # ls \<Rightarrow> (x # l) # ls))"

text \<open>\<open>strings.Join(elems, sep)\<close>\<close>

fun strings_Join :: "string list \<Rightarrow> string \<Rightarrow> string" where
  "strings_Join [] sep = []"
| "strings_Join [a] sep = a"
| "strings_Join (a # b # elems) sep = a @ sep @ strings_Join (b # elems) sep"

text \<open>
  \<open>make([]byte, n)\<close>: a zeroed slice of \<open>n\<close> bytes; a negative length panics.
  (Exhaustion of memory is not modelled.)
\<close>

definition make_bytes :: "int \<Rightarrow> panic_value + string" where
  "make_bytes n =
     (if n < 0 then Inl makeslice_len_out_of_range
      else Inr (replicate (nat n) (CHR 0x00)))"

text \<open>
  \<open>runtime.Stack(buf, false)\<close>: the runtime formats the stack of the calling goroutine
  into \<open>buf\<close> and returns the number of bytes written. The text \<open>stack_text\<close> that the runtime
  would print for the goroutine is a parameter of the model; what does not fit into
  \<open>buf\<close> is cut off. The result is the buffer after the call and the count.
\<close>

definition runtime_Stack :: "string \<Rightarrow> string \<Rightarrow> string \<times> nat" where
  "runtime_Stack stack_text buf =
     (let n = min (length buf) (length stack_text)
      in (take n stack_text @ drop n buf, n))"

subsection \<open>The default error handler\<close>

text \<open>
  A handler for recovered panics gets the configuration, what has been done to the
  collaborators so far in this request, the message and the stack; it yields the calls
  it makes and returns or panics.
\<close>

type_synonym ErrHandlerFn =
  "Config \<Rightarrow> event list \<Rightarrow> string \<Rightarrow> string list \<Rightarrow> event list \<times> outcome"

text \<open>
  \<open>DefaultErrorHandler\<close>. The method call \<open>c.Logger.Printf\<close> on a nil logger dereferences
  the nil pointer and panics, before the response writer is touched. On a logger,
  \<open>Printf("%s\n%s", msg, strings.Join(stack, "\n"))\<close> is one record with the text
  \<open>msg\<close>, a newline, and the joined stack.
\<close>

definition DefaultErrorHandler :: ErrHandlerFn where
  "DefaultErrorHandler c history msg stack =
     (case Config.Logger c of
        None \<Rightarrow> ([], Panicked nil_dereference)
      | Some l \<Rightarrow>
          ([LoggerPrintf l (msg @ [newline] @ strings_Join stack [newline]),
            HeaderSet ''Content-Type'' (Config.ContentType c),
            WriteHeader (Config.ResponseStatus c)],
           Returned))"

subsection \<open>The handler built by Recover\<close>

text \<open>
  The type switch on the recovered value:
  \<open>case string: msg = fmt.Sprintf("panic: %s", x)\<close>,
  \<open>case error: msg = fmt.Sprintf("panic: %s", x)\<close>,
  \<open>default: msg = "unknown panic"\<close>.
\<close>

fun panic_msg :: "panic_value \<Rightarrow> string" where
  "panic_msg (PString x) = ''panic: '' @ x"
| "panic_msg (PError x) = ''panic: '' @ x"
| "panic_msg v = ''unknown panic''"

text \<open>
  \<open>buf := make([]byte, c.StackSize); buf = buf[:runtime.Stack(buf, false)]\<close>:
  the captured stack text, or the panic of \<open>make\<close>.
\<close>

definition capture_stack :: "Config \<Rightarrow> string \<Rightarrow> panic_value + string" where
  "capture_stack c stack_text =
     (case make_bytes (Config.StackSize c) of
        Inl p \<Rightarrow> Inl p
      | Inr buf \<Rightarrow> (let (buf', n) = runtime_Stack stack_text buf in Inr (take n buf')))"

text \<open>\<open>if len(stack) > 3 { stack = stack[3:] }\<close>\<close>

definition trim_stack :: "string list \<Rightarrow> string list" where
  "trim_stack stack = (if length stack > 3 then drop 3 stack else stack)"

text \<open>
  The result of serving one request through the wrapper: the calls made on the
  collaborators (by the wrapped handler and by the error handler), how the wrapper ends,
  and, as a record of the control flow, the payloads with which the configured error
  handler was entered.
\<close>

record Served =
  events :: "event list"
  ending :: outcome
  dispatched :: "(string \<times> string list) list"

text \<open>
  The call \<open>c.ErrHandler(c, w, msg, stack)\<close>: calling a nil function value panics;
  \<open>user\<close> gives the behaviour of the function values supplied by the caller.
\<close>

definition call_ErrHandler ::
  "(nat \<Rightarrow> ErrHandlerFn) \<Rightarrow> func_ref \<Rightarrow> ErrHandlerFn" where
  "call_ErrHandler user f =
     (case f of DefaultErrorHandlerFn \<Rightarrow> DefaultErrorHandler | UserFn k \<Rightarrow> user k)"

text \<open>
  \<open>recover()\<close> in the deferred function of the wrapper, when \<open>h.ServeHTTP(w, r)\<close> has
  ended with \<open>inner\<close>: \<open>nil\<close> when the handler returned, the carried value when it
  panicked. A handler that panicked with \<open>nil\<close> is therefore reported as \<open>nil\<close> too
  (the language as it was when the package was written; a runtime that replaces the nil
  value of \<open>panic(nil)\<close> by a \<open>*runtime.PanicNilError\<close> makes that handler end with
  \<open>Panicked (PError d)\<close> here). Calling \<open>recover()\<close> stops the panic in both cases.
\<close>

fun recover :: "outcome \<Rightarrow> panic_value" where
  "recover Returned = PNil"
| "recover (Panicked v) = v"

text \<open>
  The deferred function of the wrapper, run when \<open>h.ServeHTTP(w, r)\<close> has ended with
  \<open>inner\<close> after making the calls \<open>history\<close>. With a non-nil recovered value the message
  and the stack are built and the error handler is called. A panic inside the deferred
  function (from \<open>make\<close>, from calling a nil \<open>ErrHandler\<close>, or from the error handler)
  leaves the wrapper; otherwise the wrapper returns.
\<close>

definition recovery ::
  "(nat \<Rightarrow> ErrHandlerFn) \<Rightarrow> string \<Rightarrow> Config \<Rightarrow> event list \<Rightarrow> outcome \<Rightarrow> Served" where
  "recovery user stack_text c history inner =
     (let v = recover inner in
      if v \<noteq> PNil then
        let msg = panic_msg v in
        (case capture_stack c stack_text of
           Inl p \<Rightarrow> \<lparr> events = history, ending = Panicked p, dispatched = [] \<rparr>
         | Inr buf \<Rightarrow>
             let stack = trim_stack (strings_Split buf newline) in
             (case Config.ErrHandler c of
                None \<Rightarrow>
                  \<lparr> events = history, ending = Panicked nil_dereference,
                    dispatched = [] \<rparr>
              | Some f \<Rightarrow>
                  (case call_ErrHandler user f c history msg stack of
                     (evs, out) \<Rightarrow>
                       \<lparr> events = history @ evs, ending = out,
                         dispatched = [(msg, stack)] \<rparr>)))
      else \<lparr> events = history, ending = Returned, dispatched = [] \<rparr>)"

text \<open>
  The handler function returned by \<open>Recover(options...)(h)\<close>, for the configuration \<open>c\<close>:
  \<open>h\<close> maps the request to the calls the wrapped handler makes and to its outcome.
\<close>

definition ServeHTTP ::
  "(nat \<Rightarrow> ErrHandlerFn) \<Rightarrow> string \<Rightarrow> Config \<Rightarrow> ('r \<Rightarrow> event list \<times> outcome) \<Rightarrow> 'r \<Rightarrow> Served" where
  "ServeHTTP user stack_text c h r =
     (case h r of (history, inner) \<Rightarrow> recovery user stack_text c history inner)"

definition Recover ::
  "(nat \<Rightarrow> ErrHandlerFn) \<Rightarrow> string \<Rightarrow> Option list \<Rightarrow> ('r \<Rightarrow> event list \<times> outcome) \<Rightarrow> 'r \<Rightarrow> Served" where
  "Recover user stack_text options h r =
     (let c = apply_options NewConfig options in ServeHTTP user stack_text c h r)"

subsection \<open>Example inputs\<close>

text \<open>
  A wrapped handler that writes nothing and panics with \<open>v\<close> (the handlers of the
  package's tests are \<open>panic("!!!")\<close> and \<open>panic("aloha")\<close>), one that writes a body and
  returns, and caller-supplied error handlers that do nothing.
\<close>

definition panicking :: "panic_value \<Rightarrow> unit \<Rightarrow> event list \<times> outcome" where
  "panicking v r = ([], Panicked v)"

definition greeting :: "unit \<Rightarrow> event list \<times> outcome" where
  "greeting r = ([WriteHeader 200, Write ''hello''], Returned)"

definition silent :: "nat \<Rightarrow> ErrHandlerFn" where
  "silent k c history msg stack = ([], Returned)"

text \<open>
  The error handler of the package's third test: it sets the header and the status from
  the configuration and writes a body made from the message and the stack by \<open>marshal\<close>
  (the JSON encoding of the test); it logs nothing.
\<close>

definition writing_body :: "(string \<Rightarrow> string) \<Rightarrow> nat \<Rightarrow> ErrHandlerFn" where
  "writing_body marshal k c history msg stack =
     ([HeaderSet ''Content-Type'' (Config.ContentType c),
       WriteHeader (Config.ResponseStatus c),
       Write (marshal (msg @ [newline] @ strings_Join stack [newline]))],
      Returned)"


section \<open>Properties\<close>

subsection \<open>Auxiliary facts\<close>

lemma MinimumStackSize_eq: "MinimumStackSize = 4096"
  by (simp add: MinimumStackSize_def)






lemma capture_stack_eq:
  "capture_stack c stack_text =
     (if Config.StackSize c < 0 then Inl makeslice_len_out_of_range
      else Inr (take (nat (Config.StackSize c)) stack_text))"
  by (simp add: capture_stack_def make_bytes_def runtime_Stack_def Let_def min_def)

text \<open>The deferred function, case by case.\<close>

lemma recovery_Returned:
  "recovery user stack_text c history Returned =
     \<lparr> events = history, ending = Returned, dispatched = [] \<rparr>"
  by (simp add: recovery_def)

lemma recovery_PNil:
  "recovery user stack_text c history (Panicked PNil) =
     \<lparr> events = history, ending = Returned, dispatched = [] \<rparr>"
  by (simp add: recovery_def)

lemma recovery_dispatch:
  assumes "v \<noteq> PNil" and "capture_stack c stack_text = Inr buf" and "Config.ErrHandler c = Some f"
  shows "recovery user stack_text c history (Panicked v) =
     \<lparr> events = history @ fst (call_ErrHandler user f c history (panic_msg v)
                                  (trim_stack (strings_Split buf newline))),
       ending = snd (call_ErrHandler user f c history (panic_msg v)
                       (trim_stack (strings_Split buf newline))),
       dispatched = [(panic_msg v, trim_stack (strings_Split buf newline))] \<rparr>"
  using assms by (simp add: recovery_def Let_def split: prod.splits)

lemma ServeHTTP_recovery:
  "ServeHTTP user stack_text c h r = recovery user stack_text c (fst (h r)) (snd (h r))"
  by (simp add: ServeHTTP_def split: prod.splits)

subsection \<open>The StackSize option and the floor\<close>

text \<open>
  Claim C6. For every configuration and every value \<open>val\<close> at most \<open>MinimumStackSize\<close>
  (4096), the option \<open>StackSize(val)\<close> changes nothing: the configuration, and so its
  stack size, is what it was; for a value above the floor the stack size becomes \<open>val\<close>
  (and nothing else changes).
\<close>

theorem StackSize_floor_noop:
  "MinimumStackSize = 4096 \<and>
   (val \<le> MinimumStackSize \<longrightarrow>
      StackSize val c = c \<and> Config.StackSize (StackSize val c) = Config.StackSize c) \<and>
   (MinimumStackSize < val \<longrightarrow>
      StackSize val c = c\<lparr>Config.StackSize := val\<rparr> \<and> Config.StackSize (StackSize val c) = val)"
  by (simp add: StackSize_def MinimumStackSize_eq)

theorem StackSize_floor_noop_witness:
  "(1::int) \<le> MinimumStackSize \<and> MinimumStackSize < 8192 \<and>
   Config.StackSize (StackSize 8192 NewConfig) = 8192 \<and>
   StackSize 1 (StackSize 8192 NewConfig) = StackSize 8192 NewConfig"
proof -
  have lo: "(1::int) \<le> MinimumStackSize" and hi: "MinimumStackSize < 8192"
    by (simp_all add: MinimumStackSize_eq)
  from hi StackSize_floor_noop [of 8192 NewConfig]
  have up: "Config.StackSize (StackSize 8192 NewConfig) = 8192" by blast
  from lo StackSize_floor_noop [of 1 "StackSize 8192 NewConfig"]
  have keep: "StackSize 1 (StackSize 8192 NewConfig) = StackSize 8192 NewConfig" by blast
  from lo hi up keep show ?thesis by blast
qed

subsection \<open>The floor of the stack size is an invariant\<close>

lemma build_keeps_floor:
  "MinimumStackSize \<le> Config.StackSize c \<Longrightarrow> MinimumStackSize \<le> Config.StackSize (build call c)"
  by (cases call)
    (simp_all add: ContentType_def ResponseStatus_def StackSize_def Logger_def ErrorHandler_def)

lemma apply_options_keeps_floor:
  "MinimumStackSize \<le> Config.StackSize c \<Longrightarrow>
   MinimumStackSize \<le> Config.StackSize (apply_options c (map build calls))"
  by (induction calls arbitrary: c) (simp_all add: build_keeps_floor)


text \<open>
  Claim C7. The stack size is at least the floor \<open>MinimumStackSize\<close> (4096) in the
  configuration that \<open>NewConfig\<close> creates, every application of an option built by one
  of the package's option constructors keeps it so, and hence it holds for the
  configuration that results from any sequence of such options applied by \<open>Recover\<close>.
\<close>

theorem stack_size_never_below_floor:
  "MinimumStackSize = 4096 \<and>
   MinimumStackSize \<le> Config.StackSize NewConfig \<and>
   (MinimumStackSize \<le> Config.StackSize c \<longrightarrow>
      MinimumStackSize \<le> Config.StackSize (build call c)) \<and>
   MinimumStackSize \<le> Config.StackSize (apply_options NewConfig (map build calls))"
proof -
  have new: "MinimumStackSize \<le> Config.StackSize NewConfig"
    by (simp add: NewConfig_def)
  from new have "MinimumStackSize \<le> Config.StackSize (apply_options NewConfig (map build calls))"
    by (rule apply_options_keeps_floor)
  moreover have "MinimumStackSize \<le> Config.StackSize c \<longrightarrow>
      MinimumStackSize \<le> Config.StackSize (build call c)"
    using build_keeps_floor by blast
  ultimately show ?thesis
    using new MinimumStackSize_eq by blast
qed

theorem stack_size_never_below_floor_witness:
  "MinimumStackSize \<le> Config.StackSize NewConfig \<and>
   MinimumStackSize \<le> Config.StackSize (StackSize 1 NewConfig) \<and>
   4096 \<le> Config.StackSize (apply_options NewConfig [StackSize 1, StackSize 100000, StackSize 5])"
proof -
  note t = stack_size_never_below_floor
    [of NewConfig "StackSizeCall 1" "[StackSizeCall 1, StackSizeCall 100000, StackSizeCall 5]"]
  from t have a: "MinimumStackSize \<le> Config.StackSize NewConfig" by blast
  from t a have b: "MinimumStackSize \<le> Config.StackSize (build (StackSizeCall 1) NewConfig)"
    by blast
  from t have c: "MinimumStackSize \<le> Config.StackSize (apply_options NewConfig
      (map build [StackSizeCall 1, StackSizeCall 100000, StackSizeCall 5]))" by blast
  from t have d: "MinimumStackSize = 4096" by blast
  from c have "4096 \<le> Config.StackSize (apply_options NewConfig [StackSize 1, StackSize 100000, StackSize 5])"
    unfolding d by simp
  with a b show ?thesis by simp
qed

subsection \<open>Order of the options\<close>

lemma apply_options_foldl: "apply_options c options = foldl (\<lambda>c v. v c) c options"
  by (induction options arbitrary: c) simp_all

lemma apply_options_append:
  "apply_options c (xs @ ys) = apply_options (apply_options c xs) ys"
  by (induction xs arbitrary: c) simp_all

lemmas option_defs = ContentType_def ResponseStatus_def StackSize_def Logger_def ErrorHandler_def

lemma ContentType_kept:
  "\<forall>w. ContentTypeCall w \<notin> set post \<Longrightarrow>
   Config.ContentType (apply_options c (map build post)) = Config.ContentType c"
proof (induction post arbitrary: c)
  case Nil
  show ?case by simp
next
  case (Cons x post)
  then show ?case by (cases x) (auto simp: option_defs)
qed

lemma ResponseStatus_kept:
  "\<forall>w. ResponseStatusCall w \<notin> set post \<Longrightarrow>
   Config.ResponseStatus (apply_options c (map build post)) = Config.ResponseStatus c"
proof (induction post arbitrary: c)
  case Nil
  show ?case by simp
next
  case (Cons x post)
  then show ?case by (cases x) (auto simp: option_defs)
qed

lemma Logger_kept:
  "\<forall>w. LoggerCall w \<notin> set post \<Longrightarrow>
   Config.Logger (apply_options c (map build post)) = Config.Logger c"
proof (induction post arbitrary: c)
  case Nil
  show ?case by simp
next
  case (Cons x post)
  then show ?case by (cases x) (auto simp: option_defs)
qed

lemma ErrHandler_kept:
  "\<forall>w. ErrorHandlerCall w \<notin> set post \<Longrightarrow>
   Config.ErrHandler (apply_options c (map build post)) = Config.ErrHandler c"
proof (induction post arbitrary: c)
  case Nil
  show ?case by simp
next
  case (Cons x post)
  then show ?case by (cases x) (auto simp: option_defs)
qed

lemma StackSize_kept:
  "\<forall>w. StackSizeCall w \<in> set post \<longrightarrow> w \<le> MinimumStackSize \<Longrightarrow>
   Config.StackSize (apply_options c (map build post)) = Config.StackSize c"
proof (induction post arbitrary: c)
  case Nil
  show ?case by simp
next
  case (Cons x post)
  then show ?case by (cases x) (auto simp: option_defs)
qed


lemma apply_options_split:
  "apply_options c (map build (pre @ x # post)) =
   apply_options (build x (apply_options c (map build pre))) (map build post)"
  by (simp add: apply_options_append)

text \<open>
  Claim C8, amended. The options are applied in the order in which they are supplied (a
  fold from the left, starting from the given configuration); each option built by a
  constructor changes at most the one field it is named after and leaves the others as
  they are; and for each field the last option that has an effect decides the final
  value: for the content type, the response status, the logger and the error handler
  this is the last option for that field, for the stack size it is the last \<open>StackSize\<close>
  option with a value above \<open>MinimumStackSize\<close> (a \<open>StackSize\<close> option with a value at
  most the floor changes nothing), and when no such option is supplied the stack size
  is the one before.
\<close>

theorem options_in_order_last_effective_wins:
  "apply_options c options = foldl (\<lambda>c v. v c) c options \<and>
   ContentType s c = c\<lparr>Config.ContentType := s\<rparr> \<and>
   ResponseStatus n c = c\<lparr>Config.ResponseStatus := n\<rparr> \<and>
   StackSize n c = (if n \<le> MinimumStackSize then c else c\<lparr>Config.StackSize := n\<rparr>) \<and>
   Logger l c = c\<lparr>Config.Logger := l\<rparr> \<and>
   ErrorHandler f c = c\<lparr>Config.ErrHandler := f\<rparr> \<and>
   ((\<forall>w. ContentTypeCall w \<notin> set post) \<longrightarrow>
      Config.ContentType (apply_options c (map build (pre @ ContentTypeCall s # post))) = s) \<and>
   ((\<forall>w. ResponseStatusCall w \<notin> set post) \<longrightarrow>
      Config.ResponseStatus (apply_options c (map build (pre @ ResponseStatusCall n # post))) = n) \<and>
   ((\<forall>w. LoggerCall w \<notin> set post) \<longrightarrow>
      Config.Logger (apply_options c (map build (pre @ LoggerCall l # post))) = l) \<and>
   ((\<forall>w. ErrorHandlerCall w \<notin> set post) \<longrightarrow>
      Config.ErrHandler (apply_options c (map build (pre @ ErrorHandlerCall f # post))) = f) \<and>
   (MinimumStackSize < n \<and> (\<forall>w. StackSizeCall w \<in> set post \<longrightarrow> w \<le> MinimumStackSize) \<longrightarrow>
      Config.StackSize (apply_options c (map build (pre @ StackSizeCall n # post))) = n) \<and>
   ((\<forall>w. StackSizeCall w \<in> set post \<longrightarrow> w \<le> MinimumStackSize) \<longrightarrow>
      Config.StackSize (apply_options c (map build post)) = Config.StackSize c)"
proof -
  have order: "apply_options c options = foldl (\<lambda>c v. v c) c options"
    by (rule apply_options_foldl)
  have fields: "ContentType s c = c\<lparr>Config.ContentType := s\<rparr>"
    "ResponseStatus n c = c\<lparr>Config.ResponseStatus := n\<rparr>"
    "StackSize n c = (if n \<le> MinimumStackSize then c else c\<lparr>Config.StackSize := n\<rparr>)"
    "Logger l c = c\<lparr>Config.Logger := l\<rparr>"
    "ErrorHandler f c = c\<lparr>Config.ErrHandler := f\<rparr>"
    by (simp_all add: option_defs)
  have ct: "(\<forall>w. ContentTypeCall w \<notin> set post) \<longrightarrow>
      Config.ContentType (apply_options c (map build (pre @ ContentTypeCall s # post))) = s"
    unfolding apply_options_split by (simp add: ContentType_kept ContentType_def)
  have rs: "(\<forall>w. ResponseStatusCall w \<notin> set post) \<longrightarrow>
      Config.ResponseStatus (apply_options c (map build (pre @ ResponseStatusCall n # post))) = n"
    unfolding apply_options_split by (simp add: ResponseStatus_kept ResponseStatus_def)
  have lg: "(\<forall>w. LoggerCall w \<notin> set post) \<longrightarrow>
      Config.Logger (apply_options c (map build (pre @ LoggerCall l # post))) = l"
    unfolding apply_options_split by (simp add: Logger_kept Logger_def)
  have eh: "(\<forall>w. ErrorHandlerCall w \<notin> set post) \<longrightarrow>
      Config.ErrHandler (apply_options c (map build (pre @ ErrorHandlerCall f # post))) = f"
    unfolding apply_options_split by (simp add: ErrHandler_kept ErrorHandler_def)
  have ss: "MinimumStackSize < n \<and> (\<forall>w. StackSizeCall w \<in> set post \<longrightarrow> w \<le> MinimumStackSize) \<longrightarrow>
      Config.StackSize (apply_options c (map build (pre @ StackSizeCall n # post))) = n"
    unfolding apply_options_split by (simp add: StackSize_kept StackSize_def)
  have ss0: "(\<forall>w. StackSizeCall w \<in> set post \<longrightarrow> w \<le> MinimumStackSize) \<longrightarrow>
      Config.StackSize (apply_options c (map build post)) = Config.StackSize c"
    by (simp add: StackSize_kept)
  from order fields ct rs lg eh ss ss0 show ?thesis by blast
qed

theorem options_in_order_last_effective_wins_witness:
  "(\<forall>w. ContentTypeCall w \<notin> set [StackSizeCall 1]) \<and>
   Config.ContentType (apply_options NewConfig
      [ContentType ''text/plain'', ContentType ''application/xml'', StackSize 1]) = ''application/xml'' \<and>
   MinimumStackSize < 8192 \<and>
   \<not> (\<exists>w. StackSizeCall w \<in> set [StackSizeCall 1] \<and> MinimumStackSize < w) \<and>
   Config.StackSize (apply_options NewConfig
      [StackSize 5000, StackSize 8192, StackSize 1]) = 8192"
proof -
  have h1: "\<forall>w. ContentTypeCall w \<notin> set [StackSizeCall 1]" by simp
  have h2: "MinimumStackSize < 8192" by (simp add: MinimumStackSize_eq)
  have h3: "\<forall>w. StackSizeCall w \<in> set [StackSizeCall 1] \<longrightarrow> w \<le> MinimumStackSize"
    by (simp add: MinimumStackSize_eq)
  from h1 options_in_order_last_effective_wins
    [of NewConfig _ "''application/xml''" _ _ _ "[StackSizeCall 1]" "[ContentTypeCall ''text/plain'']"]
  have "Config.ContentType (apply_options NewConfig (map build
      ([ContentTypeCall ''text/plain''] @ ContentTypeCall ''application/xml'' # [StackSizeCall 1])))
      = ''application/xml''" by blast
  then have a: "Config.ContentType (apply_options NewConfig
      [ContentType ''text/plain'', ContentType ''application/xml'', StackSize 1]) = ''application/xml''"
    by simp
  from h2 h3 options_in_order_last_effective_wins
    [of NewConfig _ _ 8192 _ _ "[StackSizeCall 1]" "[StackSizeCall 5000]"]
  have "Config.StackSize (apply_options NewConfig (map build
      ([StackSizeCall 5000] @ StackSizeCall 8192 # [StackSizeCall 1]))) = 8192" by blast
  then have b: "Config.StackSize (apply_options NewConfig
      [StackSize 5000, StackSize 8192, StackSize 1]) = 8192"
    by simp
  from h3 have h3': "\<not> (\<exists>w. StackSizeCall w \<in> set [StackSizeCall 1] \<and> MinimumStackSize < w)"
    by simp
  from h1 h2 h3' a b show ?thesis by blast
qed

text \<open>
  Claim C8 says that of two options for the same field the later one's value is in the
  final configuration. For the stack size this is not so: after \<open>StackSize(8192)\<close> the
  later \<open>StackSize(1)\<close> is below the floor and changes nothing, so the earlier value
  stays.
\<close>

theorem options_later_StackSize_counterexample:
  "Config.StackSize (apply_options NewConfig [StackSize 8192, StackSize 1]) = 8192 \<and>
   Config.StackSize (apply_options NewConfig [StackSize 8192, StackSize 1]) \<noteq> 1"
  by (simp add: StackSize_def NewConfig_def MinimumStackSize_eq)

subsection \<open>Control flow of the wrapper\<close>



lemma capture_stack_nonneg:
  "0 \<le> Config.StackSize c \<Longrightarrow>
   capture_stack c stack_text = Inr (take (nat (Config.StackSize c)) stack_text)"
  by (simp add: capture_stack_eq)

lemma ServeHTTP_dispatch:
  assumes "snd (h r) = Panicked v" and "v \<noteq> PNil" and "0 \<le> Config.StackSize c"
    and "Config.ErrHandler c = Some f"
  shows "ServeHTTP user stack_text c h r =
     \<lparr> events = fst (h r) @ fst (call_ErrHandler user f c (fst (h r)) (panic_msg v)
          (trim_stack (strings_Split (take (nat (Config.StackSize c)) stack_text) newline))),
       ending = snd (call_ErrHandler user f c (fst (h r)) (panic_msg v)
          (trim_stack (strings_Split (take (nat (Config.StackSize c)) stack_text) newline))),
       dispatched = [(panic_msg v,
          trim_stack (strings_Split (take (nat (Config.StackSize c)) stack_text) newline))] \<rparr>"
  using assms
  by (simp add: ServeHTTP_recovery recovery_dispatch [OF _ capture_stack_nonneg])





subsection \<open>The package's tests on the model\<close>

text \<open>
  The three tests of the package, for any stack text: the response gets the configured
  content type and status and no body from the default error handler, the log record
  starts with the message, an undersized \<open>StackSize(1)\<close> leaves the floor in effect, and
  with a caller's error handler nothing is logged.
\<close>

lemma options_of_second_test:
  "apply_options NewConfig
     [ContentType ''application/xml'', ResponseStatus 200, Logger (Some (UserLogger 0)), StackSize 1]
   = \<lparr> Config.ContentType = ''application/xml'', Config.ResponseStatus = 200,
       Config.StackSize = 4096, Config.Logger = Some (UserLogger 0),
       Config.ErrHandler = Some DefaultErrorHandlerFn \<rparr>"
  by (simp add: option_defs NewConfig_def MinimumStackSize_eq)

lemma TestRecoverMiddleware:
  "Recover user stack_text [] (panicking (PString ''!!!'')) () =
     \<lparr> events =
         [LoggerPrintf StderrLogger (''panic: !!!'' @ [newline] @
            strings_Join (trim_stack (strings_Split (take 4096 stack_text) newline)) [newline]),
          HeaderSet ''Content-Type'' ''application/json'',
          WriteHeader 500],
       ending = Returned,
       dispatched =
         [(''panic: !!!'', trim_stack (strings_Split (take 4096 stack_text) newline))] \<rparr>"
proof -
  have "Recover user stack_text [] (panicking (PString ''!!!'')) () =
      ServeHTTP user stack_text NewConfig (panicking (PString ''!!!'')) ()"
    by (simp add: Recover_def)
  also have "\<dots> = \<lparr> events =
         [LoggerPrintf StderrLogger (''panic: !!!'' @ [newline] @
            strings_Join (trim_stack (strings_Split (take 4096 stack_text) newline)) [newline]),
          HeaderSet ''Content-Type'' ''application/json'',
          WriteHeader 500],
       ending = Returned,
       dispatched =
         [(''panic: !!!'', trim_stack (strings_Split (take 4096 stack_text) newline))] \<rparr>"
    by (simp add: ServeHTTP_dispatch [where v = "PString ''!!!''" and f = DefaultErrorHandlerFn]
        panicking_def NewConfig_def MinimumStackSize_eq call_ErrHandler_def
        DefaultErrorHandler_def StatusInternalServerError_def)
  finally show ?thesis .
qed

lemma TestRecoverMiddlewareWithOptions:
  "Recover user stack_text
     [ContentType ''application/xml'', ResponseStatus 200, Logger (Some (UserLogger 0)), StackSize 1]
     (panicking (PString ''aloha'')) () =
     \<lparr> events =
         [LoggerPrintf (UserLogger 0) (''panic: aloha'' @ [newline] @
            strings_Join (trim_stack (strings_Split (take 4096 stack_text) newline)) [newline]),
          HeaderSet ''Content-Type'' ''application/xml'',
          WriteHeader 200],
       ending = Returned,
       dispatched =
         [(''panic: aloha'', trim_stack (strings_Split (take 4096 stack_text) newline))] \<rparr>"
  unfolding Recover_def Let_def options_of_second_test
  by (simp add: ServeHTTP_dispatch [where v = "PString ''aloha''" and f = DefaultErrorHandlerFn]
      panicking_def call_ErrHandler_def DefaultErrorHandler_def)

lemma TestRecoverMiddlewareWithCustomErrorHandler:
  "Recover (writing_body marshal) stack_text [ErrorHandler (Some (UserFn 0))]
     (panicking (PString ''aloha'')) () =
     \<lparr> events =
         [HeaderSet ''Content-Type'' ''application/json'',
          WriteHeader 500,
          Write (marshal (''panic: aloha'' @ [newline] @
            strings_Join (trim_stack (strings_Split (take 4096 stack_text) newline)) [newline]))],
       ending = Returned,
       dispatched =
         [(''panic: aloha'', trim_stack (strings_Split (take 4096 stack_text) newline))] \<rparr>"
proof -
  have c: "apply_options NewConfig [ErrorHandler (Some (UserFn 0))] =
      NewConfig\<lparr>Config.ErrHandler := Some (UserFn 0)\<rparr>"
    by (simp add: ErrorHandler_def)
  show ?thesis
    unfolding Recover_def Let_def c
    by (simp add: ServeHTTP_dispatch [where v = "PString ''aloha''" and f = "UserFn 0"]
        panicking_def call_ErrHandler_def writing_body_def NewConfig_def MinimumStackSize_eq
        StatusInternalServerError_def)
qed

subsection \<open>The error handler is entered at most once\<close>




subsection \<open>The message\<close>



subsection \<open>Transparency\<close>

text \<open>
  Claim C3. When the wrapped handler returns, the wrapper adds nothing: the calls on the
  response writer and the loggers are exactly those of the wrapped handler, the error
  handler is not entered, and the wrapper returns.
\<close>

theorem transparent_on_return:
  "snd (h r) = Returned \<longrightarrow>
     events (ServeHTTP user stack_text c h r) = fst (h r) \<and>
     ending (ServeHTTP user stack_text c h r) = Returned \<and>
     dispatched (ServeHTTP user stack_text c h r) = [] \<and>
     Recover user stack_text options h r =
       \<lparr> events = fst (h r), ending = Returned, dispatched = [] \<rparr>"
  by (simp add: Recover_def ServeHTTP_recovery recovery_Returned)

theorem transparent_on_return_witness:
  "snd (greeting ()) = Returned \<and>
   events (ServeHTTP silent ''goroutine 1 [running]:'' NewConfig greeting ()) =
     [WriteHeader 200, Write ''hello''] \<and>
   ending (ServeHTTP silent ''goroutine 1 [running]:'' NewConfig greeting ()) = Returned \<and>
   dispatched (ServeHTTP silent ''goroutine 1 [running]:'' NewConfig greeting ()) = [] \<and>
   Recover silent ''goroutine 1 [running]:'' [ContentType ''text/plain''] greeting () =
     \<lparr> events = [WriteHeader 200, Write ''hello''], ending = Returned, dispatched = [] \<rparr>"
proof -
  let ?S = "ServeHTTP silent ''goroutine 1 [running]:'' NewConfig greeting ()"
  have h1: "snd (greeting ()) = Returned" by (simp add: greeting_def)
  have h2: "fst (greeting ()) = [WriteHeader 200, Write ''hello'']" by (simp add: greeting_def)
  from h1 transparent_on_return [of greeting "()" silent "''goroutine 1 [running]:''" NewConfig
      "[ContentType ''text/plain'']"]
  have "events ?S = fst (greeting ()) \<and> ending ?S = Returned \<and> dispatched ?S = [] \<and>
     Recover silent ''goroutine 1 [running]:'' [ContentType ''text/plain''] greeting () =
       \<lparr> events = fst (greeting ()), ending = Returned, dispatched = [] \<rparr>"
    by blast
  with h1 h2 show ?thesis by simp
qed

text \<open>
  Claim C10. When the wrapped handler panics with \<open>nil\<close>, the wrapper recovers the panic
  (it returns to its caller), the error handler is not entered, and nothing is written
  to the response writer or a logger beyond what the wrapped handler wrote before.
\<close>

theorem nil_panic_recovered_silently:
  "snd (h r) = Panicked PNil \<longrightarrow>
     ending (ServeHTTP user stack_text c h r) = Returned \<and>
     dispatched (ServeHTTP user stack_text c h r) = [] \<and>
     events (ServeHTTP user stack_text c h r) = fst (h r) \<and>
     Recover user stack_text options h r =
       \<lparr> events = fst (h r), ending = Returned, dispatched = [] \<rparr>"
  by (simp add: Recover_def ServeHTTP_recovery recovery_PNil)

theorem nil_panic_recovered_silently_witness:
  "snd (panicking PNil ()) = Panicked PNil \<and>
   ending (ServeHTTP silent ''goroutine 1 [running]:'' NewConfig (panicking PNil) ()) = Returned \<and>
   dispatched (ServeHTTP silent ''goroutine 1 [running]:'' NewConfig (panicking PNil) ()) = [] \<and>
   events (ServeHTTP silent ''goroutine 1 [running]:'' NewConfig (panicking PNil) ()) = [] \<and>
   Recover silent ''goroutine 1 [running]:'' [ResponseStatus 200] (panicking PNil) () =
     \<lparr> events = [], ending = Returned, dispatched = [] \<rparr>"
proof -
  let ?S = "ServeHTTP silent ''goroutine 1 [running]:'' NewConfig (panicking PNil) ()"
  have h1: "snd (panicking PNil ()) = Panicked PNil" by (simp add: panicking_def)
  have h2: "fst (panicking PNil ()) = []" by (simp add: panicking_def)
  from h1 nil_panic_recovered_silently
    [of "panicking PNil" "()" silent "''goroutine 1 [running]:''" NewConfig "[ResponseStatus 200]"]
  have "ending ?S = Returned \<and> dispatched ?S = [] \<and> events ?S = fst (panicking PNil ()) \<and>
     Recover silent ''goroutine 1 [running]:'' [ResponseStatus 200] (panicking PNil) () =
       \<lparr> events = fst (panicking PNil ()), ending = Returned, dispatched = [] \<rparr>"
    by blast
  with h1 h2 show ?thesis by simp
qed

subsection \<open>The default error handler\<close>




subsection \<open>The stack trace\<close>





end
